theory Spec2Isabelle
  imports Complex_Main
begin

section \<open>JavaScript numbers\<close>

text \<open>
  The monitor computes with JavaScript numbers.  They are modelled as exact rationals
  together with the three non-finite values; binary rounding of IEEE doubles and the
  negative zero are not represented.  A missing (\<^verbatim>\<open>undefined\<close>) numeric field is
  read as \<open>NaN\<close>: in every place where the services use such a field (arithmetic,
  \<^verbatim>\<open>x || 0\<close>, \<^verbatim>\<open>x ? a : b\<close>, \<^verbatim>\<open>x > 0\<close>) the two behave alike.
\<close>

datatype jsnum = Num rat | PInf | NInf | NaN

fun truthy :: "jsnum \<Rightarrow> bool" where
  "truthy (Num x) = (x \<noteq> 0)"
| "truthy PInf = True"
| "truthy NInf = True"
| "truthy NaN = False"

text \<open>\<^verbatim>\<open>x || 0\<close>\<close>

definition js_or0 :: "jsnum \<Rightarrow> jsnum" where
  "js_or0 x = (if truthy x then x else Num 0)"

text \<open>\<^verbatim>\<open>x > 0\<close>\<close>

fun js_gt0 :: "jsnum \<Rightarrow> bool" where
  "js_gt0 (Num x) = (0 < x)"
| "js_gt0 PInf = True"
| "js_gt0 NInf = False"
| "js_gt0 NaN = False"

fun js_neg :: "jsnum \<Rightarrow> bool" where
  "js_neg (Num x) = (x < 0)"
| "js_neg NInf = True"
| "js_neg PInf = False"
| "js_neg NaN = False"

fun js_add :: "jsnum \<Rightarrow> jsnum \<Rightarrow> jsnum" where
  "js_add (Num a) (Num b) = Num (a + b)"
| "js_add NaN _ = NaN"
| "js_add _ NaN = NaN"
| "js_add PInf NInf = NaN"
| "js_add NInf PInf = NaN"
| "js_add PInf _ = PInf"
| "js_add NInf _ = NInf"
| "js_add (Num _) PInf = PInf"
| "js_add (Num _) NInf = NInf"

fun js_sub :: "jsnum \<Rightarrow> jsnum \<Rightarrow> jsnum" where
  "js_sub (Num a) (Num b) = Num (a - b)"
| "js_sub NaN _ = NaN"
| "js_sub _ NaN = NaN"
| "js_sub PInf PInf = NaN"
| "js_sub NInf NInf = NaN"
| "js_sub PInf _ = PInf"
| "js_sub NInf _ = NInf"
| "js_sub (Num _) PInf = NInf"
| "js_sub (Num _) NInf = PInf"

fun js_mul :: "jsnum \<Rightarrow> jsnum \<Rightarrow> jsnum" where
  "js_mul (Num a) (Num b) = Num (a * b)"
| "js_mul NaN _ = NaN"
| "js_mul _ NaN = NaN"
| "js_mul a b =
     (if a = Num 0 \<or> b = Num 0 then NaN
      else if js_neg a = js_neg b then PInf else NInf)"

fun js_div :: "jsnum \<Rightarrow> jsnum \<Rightarrow> jsnum" where
  "js_div (Num a) (Num b) =
     (if b \<noteq> 0 then Num (a / b)
      else if a = 0 then NaN
      else if 0 < a then PInf else NInf)"
| "js_div NaN _ = NaN"
| "js_div _ NaN = NaN"
| "js_div (Num _) _ = Num 0"
| "js_div a (Num b) = (if js_neg a = (b < 0) then PInf else NInf)"
| "js_div _ _ = NaN"

text \<open>\<^verbatim>\<open>Math.round\<close>: the nearest integer, a tie going towards plus infinity.\<close>

fun js_round :: "jsnum \<Rightarrow> jsnum" where
  "js_round (Num x) = Num (of_int \<lfloor>x + 1 / 2\<rfloor>)"
| "js_round PInf = PInf"
| "js_round NInf = NInf"
| "js_round NaN = NaN"

text \<open>The idiom \<^verbatim>\<open>Math.round(x * 100) / 100\<close> used by both services.\<close>

definition round2 :: "jsnum \<Rightarrow> jsnum" where
  "round2 x = js_div (js_round (js_mul x (Num 100))) (Num 100)"


section \<open>Container statistics (docker-monitor.js)\<close>

text \<open>The part of a Docker stats sample that \<^verbatim>\<open>formatContainerStats\<close> reads.\<close>

record cpu_usage_raw =
  total_usage :: jsnum

record cpu_stats_raw =
  cpu_usage :: cpu_usage_raw
  system_cpu_usage :: jsnum
  online_cpus :: jsnum

text \<open>\<^verbatim>\<open>memory_stats.usage\<close> and \<^verbatim>\<open>memory_stats.limit\<close>\<close>

record memory_stats_raw =
  raw_usage :: jsnum
  raw_limit :: jsnum

record network_raw =
  rx_bytes :: jsnum
  tx_bytes :: jsnum

text \<open>An item of \<^verbatim>\<open>io_service_bytes_recursive\<close>: \<^verbatim>\<open>{op, value}\<close>.\<close>

record blkio_item =
  op :: string
  op_value :: jsnum

record blkio_stats_raw =
  io_service_bytes_recursive :: "blkio_item list option"

text \<open>
  \<^verbatim>\<open>networks\<close> is an object keyed by interface name, or absent; it is kept as an
  association list in the order \<^verbatim>\<open>Object.values\<close> visits it.
\<close>

record docker_stats =
  cpu_stats :: cpu_stats_raw
  precpu_stats :: cpu_stats_raw
  memory_stats :: memory_stats_raw
  networks :: "(string \<times> network_raw) list option"
  blkio_stats :: blkio_stats_raw

text \<open>The object returned by \<^verbatim>\<open>formatContainerStats\<close>.\<close>

record cpu_out =
  usage :: jsnum
  system :: jsnum

record memory_out =
  mem_usage :: jsnum
  mem_limit :: jsnum
  percentage :: jsnum

record net_out =
  rx :: jsnum
  tx :: jsnum

text \<open>\<^verbatim>\<open>io: {read, write}\<close>\<close>

record io_out =
  io_read :: jsnum
  io_write :: jsnum

record container_stats =
  cpu :: cpu_out
  memory :: memory_out
  network :: net_out
  io :: io_out

definition calculateNetworkStats :: "(string \<times> network_raw) list option \<Rightarrow> net_out" where
  "calculateNetworkStats nets =
     (case nets of
        None \<Rightarrow> \<lparr>rx = Num 0, tx = Num 0\<rparr>
      | Some ns \<Rightarrow>
          foldl (\<lambda>acc n. \<lparr>rx = js_add (rx acc) (js_or0 (rx_bytes n)),
                           tx = js_add (tx acc) (js_or0 (tx_bytes n))\<rparr>)
            \<lparr>rx = Num 0, tx = Num 0\<rparr> (map snd ns))"

definition cpuDelta :: "docker_stats \<Rightarrow> jsnum" where
  "cpuDelta stats =
     js_sub (total_usage (cpu_usage (cpu_stats stats)))
            (total_usage (cpu_usage (precpu_stats stats)))"

definition systemDelta :: "docker_stats \<Rightarrow> jsnum" where
  "systemDelta stats =
     js_sub (system_cpu_usage (cpu_stats stats)) (system_cpu_usage (precpu_stats stats))"

definition cpuUsage :: "docker_stats \<Rightarrow> jsnum" where
  "cpuUsage stats =
     (if js_gt0 (systemDelta stats)
      then js_mul (js_mul (js_div (cpuDelta stats) (systemDelta stats))
                          (online_cpus (cpu_stats stats))) (Num 100)
      else Num 0)"

text \<open>\<^verbatim>\<open>list?.find(item => item.op === name)?.value || 0\<close>\<close>

definition io_bytes :: "string \<Rightarrow> blkio_item list option \<Rightarrow> jsnum" where
  "io_bytes name items =
     (case items of
        None \<Rightarrow> Num 0
      | Some l \<Rightarrow>
          (case find (\<lambda>item. op item = name) l of
             None \<Rightarrow> Num 0
           | Some item \<Rightarrow> js_or0 (op_value item)))"

definition formatContainerStats :: "docker_stats \<Rightarrow> container_stats" where
  "formatContainerStats stats =
     \<lparr>cpu = \<lparr>usage = round2 (cpuUsage stats), system = round2 (systemDelta stats)\<rparr>,
      memory =
        \<lparr>mem_usage = js_or0 (raw_usage (memory_stats stats)),
         mem_limit = js_or0 (raw_limit (memory_stats stats)),
         percentage =
           (if truthy (raw_limit (memory_stats stats))
            then round2 (js_mul (js_div (raw_usage (memory_stats stats))
                                        (raw_limit (memory_stats stats))) (Num 100))
            else Num 0)\<rparr>,
      network = calculateNetworkStats (networks stats),
      io = \<lparr>io_read = io_bytes ''Read'' (io_service_bytes_recursive (blkio_stats stats)),
            io_write = io_bytes ''Write'' (io_service_bytes_recursive (blkio_stats stats))\<rparr>\<rparr>"

section \<open>Host statistics (system-monitor.js)\<close>

datatype js_error = Error string | TypeError string | RangeError string

text \<open>
  An entry of \<^verbatim>\<open>si.fsSize()\<close>, with the fields the overview reads:
  \<^verbatim>\<open>mount\<close>, \<^verbatim>\<open>size\<close>, \<^verbatim>\<open>used\<close>, \<^verbatim>\<open>available\<close>.
\<close>

record fs_entry =
  mount :: string
  fs_size :: jsnum
  fs_used :: jsnum
  fs_available :: jsnum

text \<open>The shape \<^verbatim>\<open>{total, used, free, usage}\<close> of the overview's memory and disk parts.\<close>

record space_out =
  total :: jsnum
  used :: jsnum
  free :: jsnum
  used_pct :: jsnum

text \<open>\<^verbatim>\<open>disks.find(d => d.mount === '/') || disks[0]\<close>; \<^verbatim>\<open>disks[0]\<close> of an empty array is undefined.\<close>

definition root_entry :: "fs_entry list \<Rightarrow> fs_entry option" where
  "root_entry disks =
     (case find (\<lambda>d. mount d = ''/'') disks of
        Some d \<Rightarrow> Some d
      | None \<Rightarrow> (case disks of [] \<Rightarrow> None | d # _ \<Rightarrow> Some d))"

text \<open>\<^verbatim>\<open>root?.field\<close> as a number.\<close>

definition opt_field :: "(fs_entry \<Rightarrow> jsnum) \<Rightarrow> fs_entry option \<Rightarrow> jsnum" where
  "opt_field f rootfs = (case rootfs of None \<Rightarrow> NaN | Some r \<Rightarrow> f r)"

definition aggregateDiskStats :: "fs_entry list \<Rightarrow> space_out" where
  "aggregateDiskStats disks =
     (let rootfs = root_entry disks in
      \<lparr>total = js_or0 (opt_field fs_size rootfs),
       used = js_or0 (opt_field fs_used rootfs),
       free = js_or0 (opt_field fs_available rootfs),
       used_pct =
         js_or0 (round2 (js_mul (js_div (opt_field fs_used rootfs) (opt_field fs_size rootfs))
                                (Num 100)))\<rparr>)"

text \<open>The results of the five \<^verbatim>\<open>systeminformation\<close> calls of the overview.\<close>

record si_load =
  currentLoad :: jsnum
  cpus :: "jsnum list"

record si_mem =
  si_total :: jsnum
  si_used :: jsnum
  si_free :: jsnum

text \<open>The variable \<^verbatim>\<open>load\<close> of the overview holds the result of \<^verbatim>\<open>si.osInfo()\<close>.\<close>

record si_os =
  hostname :: string
  uptime :: jsnum
  avgLoad1 :: jsnum
  avgLoad5 :: jsnum
  avgLoad15 :: jsnum

record si_data =
  si_cpu :: si_load
  si_memory :: si_mem
  si_disk :: "fs_entry list"
  si_osinfo :: si_os
  si_temp_main :: jsnum

record overview_cpu =
  cpu_pct :: jsnum
  cores :: nat
  temperature :: jsnum

record overview =
  ov_hostname :: string
  ov_uptime :: jsnum
  loadAverage :: "jsnum list"
  ov_cpu :: overview_cpu
  ov_memory :: space_out
  ov_disk :: space_out

text \<open>
  \<^verbatim>\<open>getSystemOverview\<close>.  Its argument is the outcome of
  \<^verbatim>\<open>Promise.all\<close> over the five inspection calls: the data, or the error of a call
  that failed.  The \<^verbatim>\<open>catch\<close> block logs the error and throws it again.
\<close>

definition getSystemOverview :: "js_error + si_data \<Rightarrow> js_error + overview" where
  "getSystemOverview src =
     (case src of
        Inl e \<Rightarrow> Inl e
      | Inr d \<Rightarrow>
          Inr \<lparr>ov_hostname = hostname (si_osinfo d),
               ov_uptime = uptime (si_osinfo d),
               loadAverage =
                 [avgLoad1 (si_osinfo d), avgLoad5 (si_osinfo d), avgLoad15 (si_osinfo d)],
               ov_cpu =
                 \<lparr>cpu_pct = round2 (currentLoad (si_cpu d)),
                  cores = length (cpus (si_cpu d)),
                  temperature = js_or0 (si_temp_main d)\<rparr>,
               ov_memory =
                 \<lparr>total = si_total (si_memory d),
                  used = si_used (si_memory d),
                  free = si_free (si_memory d),
                  used_pct =
                    round2 (js_mul (js_div (si_used (si_memory d)) (si_total (si_memory d)))
                                   (Num 100))\<rparr>,
               ov_disk = aggregateDiskStats (si_disk d)\<rparr>)"

section \<open>The container adapter (docker-monitor.js)\<close>

text \<open>
  A point in time is its number of milliseconds since the epoch; \<open>ISO ms\<close> stands for the
  ISO-8601 string of that instant.  A JavaScript \<^verbatim>\<open>Date\<close> is a time value or invalid,
  and \<^verbatim>\<open>toISOString\<close> of an invalid date throws a RangeError.
\<close>

datatype iso_time = ISO int

definition new_Date :: "int \<Rightarrow> int option" where
  "new_Date ms = (if \<bar>ms\<bar> \<le> 8640000000000000 then Some ms else None)"

definition toISOString :: "int option \<Rightarrow> js_error + iso_time" where
  "toISOString d =
     (case d of None \<Rightarrow> Inl (RangeError ''Invalid time value'') | Some ms \<Rightarrow> Inr (ISO ms))"

text \<open>
  A container as the Docker client lists it.  \<^verbatim>\<open>Created\<close> is in seconds;
  \<^verbatim>\<open>StartedAt\<close> is the time value that \<^verbatim>\<open>new Date(container.StartedAt)\<close> gets,
  \<open>None\<close> when the field is absent or not a date.  \<^verbatim>\<open>Ports\<close> is passed through.
\<close>

record raw_container =
  c_Id :: string
  c_Names :: "string list"
  c_Image :: string
  c_State :: string
  c_Status :: string
  c_Ports :: "string list"
  c_Created :: int
  c_StartedAt :: "int option"

record container_info =
  info_id :: string
  info_name :: string
  info_image :: string
  info_status :: string
  info_state :: string
  info_ports :: "string list"
  info_created :: iso_time
  info_started :: "iso_time option"

text \<open>
  The function mapped over the listed containers.  \<^verbatim>\<open>Names[0].replace('/', '')\<close>
  removes the first slash and throws a TypeError when there is no name.
\<close>

definition format_container :: "raw_container \<Rightarrow> js_error + container_info" where
  "format_container c =
     (case c_Names c of
        [] \<Rightarrow> Inl (TypeError ''Cannot read properties of undefined'')
      | n # _ \<Rightarrow>
          (case toISOString (new_Date (c_Created c * 1000)) of
             Inl e \<Rightarrow> Inl e
           | Inr created \<Rightarrow>
               (case (if c_State c = ''running''
                      then map_sum id Some (toISOString (c_StartedAt c))
                      else Inr None) of
                  Inl e \<Rightarrow> Inl e
                | Inr started \<Rightarrow>
                    Inr \<lparr>info_id = take 12 (c_Id c),
                         info_name = remove1 CHR ''/'' n,
                         info_image = c_Image c,
                         info_status = c_State c,
                         info_state = c_Status c,
                         info_ports = c_Ports c,
                         info_created = created,
                         info_started = started\<rparr>)))"

text \<open>\<^verbatim>\<open>Array.prototype.map\<close> with a callback that may throw.\<close>

fun map_err :: "('a \<Rightarrow> 'e + 'b) \<Rightarrow> 'a list \<Rightarrow> 'e + 'b list" where
  "map_err f [] = Inr []"
| "map_err f (x # xs) =
     (case f x of
        Inl e \<Rightarrow> Inl e
      | Inr y \<Rightarrow> (case map_err f xs of Inl e \<Rightarrow> Inl e | Inr ys \<Rightarrow> Inr (y # ys)))"

record DockerMonitor =
  dockerEnabled :: bool
  dockerAvailable :: bool

text \<open>\<^verbatim>\<open>fs.existsSync\<close> inside \<^verbatim>\<open>try\<close>: an exception counts as not available.\<close>

definition checkDockerAvailability :: "js_error + bool \<Rightarrow> bool" where
  "checkDockerAvailability socket_exists =
     (case socket_exists of Inl e \<Rightarrow> False | Inr b \<Rightarrow> b)"

text \<open>
  The constructor, from the value of \<^verbatim>\<open>DOCKER_ENABLED\<close>, the outcome of the socket
  test and the outcome of creating the client.
\<close>

definition new_DockerMonitor ::
  "string option \<Rightarrow> js_error + bool \<Rightarrow> js_error + unit \<Rightarrow> DockerMonitor" where
  "new_DockerMonitor env_enabled socket_exists client =
     (let enabled = (env_enabled \<noteq> Some ''false'');
          available = (enabled \<and> checkDockerAvailability socket_exists)
      in \<lparr>dockerEnabled = enabled,
          dockerAvailable = (available \<and> (case client of Inl e \<Rightarrow> False | Inr u \<Rightarrow> True))\<rparr>)"

text \<open>
  \<^verbatim>\<open>listContainers\<close> of the monitor that tracks \<^verbatim>\<open>dockerAvailable\<close>.  The second
  argument is the outcome of the client's \<^verbatim>\<open>listContainers({all: true})\<close>.
\<close>

definition listContainers ::
  "DockerMonitor \<Rightarrow> js_error + raw_container list \<Rightarrow> js_error + container_info list" where
  "listContainers dm src =
     (if \<not> dockerAvailable dm then Inr []
      else (case src of
              Inl e \<Rightarrow> Inr []
            | Inr containers \<Rightarrow>
                (case map_err format_container containers of
                   Inl e \<Rightarrow> Inr []
                 | Inr infos \<Rightarrow> Inr infos)))"

definition empty_stats :: container_stats where
  "empty_stats =
     \<lparr>cpu = \<lparr>usage = Num 0, system = Num 0\<rparr>,
      memory = \<lparr>mem_usage = Num 0, mem_limit = Num 0, percentage = Num 0\<rparr>,
      network = \<lparr>rx = Num 0, tx = Num 0\<rparr>,
      io = \<lparr>io_read = Num 0, io_write = Num 0\<rparr>\<rparr>"

text \<open>The second argument is the outcome of \<^verbatim>\<open>container.stats({stream: false})\<close>.\<close>

definition getContainerStats ::
  "DockerMonitor \<Rightarrow> js_error + docker_stats \<Rightarrow> js_error + container_stats" where
  "getContainerStats dm src =
     (if \<not> dockerAvailable dm then Inr empty_stats
      else (case src of
              Inl e \<Rightarrow> Inr empty_stats
            | Inr stats \<Rightarrow> Inr (formatContainerStats stats)))"

text \<open>
  The file holds a second \<^verbatim>\<open>DockerMonitor\<close> without the availability flag; its
  operations log the error and throw it again.
\<close>

definition listContainers_rethrow ::
  "js_error + raw_container list \<Rightarrow> js_error + container_info list" where
  "listContainers_rethrow src =
     (case src of Inl e \<Rightarrow> Inl e | Inr containers \<Rightarrow> map_err format_container containers)"

definition getContainerStats_rethrow :: "js_error + docker_stats \<Rightarrow> js_error + container_stats" where
  "getContainerStats_rethrow src =
     (case src of Inl e \<Rightarrow> Inl e | Inr stats \<Rightarrow> Inr (formatContainerStats stats))"

section \<open>The cache (cache-service.js)\<close>

text \<open>
  Modelled from the spec: the class \<^verbatim>\<open>NodeCache\<close> of the package node-cache, which
  \<^verbatim>\<open>CacheService\<close> wraps and which is not among the sources.  Following the
  specification's data model, the cache maps a key to a value and an absolute expiry
  time; a read after the expiry finds nothing, whether or not the entry has been
  reclaimed; an entry is overwritten by \<^verbatim>\<open>set\<close> and removed by \<^verbatim>\<open>del\<close> and
  \<^verbatim>\<open>flushAll\<close>; a \<^verbatim>\<open>set\<close> without a ttl takes the configured default.  The clock is an
  argument of the operations that read it.
\<close>

record 'v NodeCache =
  stdTTL :: int
  entries :: "string \<rightharpoonup> ('v \<times> int)"

definition nc_get :: "int \<Rightarrow> 'v NodeCache \<Rightarrow> string \<Rightarrow> 'v option" where
  "nc_get now c k =
     (case entries c k of
        None \<Rightarrow> None
      | Some (v, expiry) \<Rightarrow> if expiry < now then None else Some v)"

definition nc_set :: "int \<Rightarrow> 'v NodeCache \<Rightarrow> string \<Rightarrow> 'v \<Rightarrow> int option \<Rightarrow> 'v NodeCache" where
  "nc_set now c k v ttl =
     c\<lparr>entries := (entries c)(k \<mapsto> (v, now + (case ttl of None \<Rightarrow> stdTTL c | Some t \<Rightarrow> t)))\<rparr>"

definition nc_del :: "'v NodeCache \<Rightarrow> string \<Rightarrow> 'v NodeCache" where
  "nc_del c k = c\<lparr>entries := (entries c)(k := None)\<rparr>"

definition nc_flushAll :: "'v NodeCache \<Rightarrow> 'v NodeCache" where
  "nc_flushAll c = c\<lparr>entries := Map.empty\<rparr>"

text \<open>
  \<^verbatim>\<open>CacheService\<close>: the constructor takes \<^verbatim>\<open>parseInt(process.env.CACHE_TTL)\<close>
  (\<open>None\<close> for NaN) and falls back to 30000; the four methods hand their arguments on.
\<close>

record 'v CacheService =
  cache :: "'v NodeCache"

definition new_CacheService :: "int option \<Rightarrow> 'v CacheService" where
  "new_CacheService env_ttl =
     \<lparr>cache =
        \<lparr>stdTTL = (case env_ttl of None \<Rightarrow> 30000 | Some n \<Rightarrow> if n = 0 then 30000 else n),
         entries = Map.empty\<rparr>\<rparr>"

definition cache_get :: "int \<Rightarrow> 'v CacheService \<Rightarrow> string \<Rightarrow> 'v option" where
  "cache_get now cs key = nc_get now (cache cs) key"

definition cache_set ::
  "int \<Rightarrow> 'v CacheService \<Rightarrow> string \<Rightarrow> 'v \<Rightarrow> int option \<Rightarrow> 'v CacheService" where
  "cache_set now cs key v ttl = cs\<lparr>cache := nc_set now (cache cs) key v ttl\<rparr>"

definition cache_del :: "'v CacheService \<Rightarrow> string \<Rightarrow> 'v CacheService" where
  "cache_del cs key = cs\<lparr>cache := nc_del (cache cs) key\<rparr>"

definition cache_flush :: "'v CacheService \<Rightarrow> 'v CacheService" where
  "cache_flush cs = cs\<lparr>cache := nc_flushAll (cache cs)\<rparr>"

section \<open>The HTTP routes (routes/system.js, routes/docker.js)\<close>












section \<open>The push channel (WebSocketService)\<close>

datatype ready_state = CONNECTING | OPEN | CLOSING | CLOSED

text \<open>A connected socket: its identity and its \<^verbatim>\<open>readyState\<close>.\<close>

record client =
  client_id :: nat
  readyState :: ready_state

text \<open>The payload \<^verbatim>\<open>{type, timestamp, data: {system, docker}}\<close>.\<close>

record metrics_data =
  data_system :: overview
  data_docker :: "container_info list"

record envelope =
  msg_type :: string
  msg_timestamp :: iso_time
  msg_data :: metrics_data

text \<open>
  The service's state: the set \<^verbatim>\<open>clients\<close> in insertion order and whether the
  interval timer is running.  With it travel the observable effects: the messages handed
  to \<^verbatim>\<open>client.send\<close> (by socket, in order), how often each adapter was polled, and the
  errors logged by the timer callback.
\<close>

record ws_state =
  clients :: "client list"
  timer_running :: bool
  sent :: "(nat \<times> envelope) list"
  system_polls :: nat
  docker_polls :: nat
  logged :: "js_error list"

definition new_WebSocketService :: ws_state where
  "new_WebSocketService =
     \<lparr>clients = [], timer_running = False, sent = [], system_polls = 0, docker_polls = 0,
      logged = []\<rparr>"

text \<open>\<^verbatim>\<open>clients.add(ws)\<close> and \<^verbatim>\<open>clients.delete(ws)\<close>, a socket being known by its identity.\<close>

definition clients_add :: "client \<Rightarrow> ws_state \<Rightarrow> ws_state" where
  "clients_add ws st =
     (if client_id ws \<in> set (map client_id (clients st)) then st
      else st\<lparr>clients := clients st @ [ws]\<rparr>)"

definition clients_delete :: "client \<Rightarrow> ws_state \<Rightarrow> ws_state" where
  "clients_delete ws st =
     st\<lparr>clients := filter (\<lambda>c. client_id c \<noteq> client_id ws) (clients st)\<rparr>"

text \<open>The handlers of \<^verbatim>\<open>connection\<close>, \<^verbatim>\<open>close\<close> and \<^verbatim>\<open>error\<close>.\<close>

definition on_connection :: "client \<Rightarrow> ws_state \<Rightarrow> ws_state" where
  "on_connection ws st = clients_add ws st"

definition on_close :: "client \<Rightarrow> ws_state \<Rightarrow> ws_state" where
  "on_close ws st = clients_delete ws st"

definition on_error :: "client \<Rightarrow> ws_state \<Rightarrow> ws_state" where
  "on_error ws st = clients_delete ws st"

text \<open>
  \<^verbatim>\<open>broadcast\<close>.  \<^verbatim>\<open>client.send\<close> belongs to the ws package and is an argument:
  it returns or throws.  \<^verbatim>\<open>forEach\<close> visits the members in insertion order; the
  callback deletes no member but the one it is visiting, so the members visited are those
  present at the start.  An exception ends the traversal and leaves \<^verbatim>\<open>broadcast\<close>; the
  state reached so far stays.  \<^verbatim>\<open>JSON.stringify\<close> is left out: the message is the
  payload.
\<close>

fun broadcast_each ::
  "(client \<Rightarrow> envelope \<Rightarrow> js_error + unit) \<Rightarrow> envelope \<Rightarrow> client list \<Rightarrow> ws_state \<Rightarrow>
   ws_state \<times> js_error option" where
  "broadcast_each send message [] st = (st, None)"
| "broadcast_each send message (c # cs) st =
     (if readyState c = OPEN
      then (case send c message of
              Inl e \<Rightarrow> (st, Some e)
            | Inr u \<Rightarrow>
                broadcast_each send message cs (st\<lparr>sent := sent st @ [(client_id c, message)]\<rparr>))
      else broadcast_each send message cs (clients_delete c st))"

definition broadcast ::
  "(client \<Rightarrow> envelope \<Rightarrow> js_error + unit) \<Rightarrow> envelope \<Rightarrow> ws_state \<Rightarrow>
   ws_state \<times> js_error option" where
  "broadcast send payload st = broadcast_each send payload (clients st) st"

text \<open>
  The callback of the interval timer.  Both adapters are called before
  \<^verbatim>\<open>Promise.all\<close> is awaited; if either rejects, the \<^verbatim>\<open>catch\<close> block logs the
  error and nothing is sent.  The callback runs as one step: events arriving while it
  awaits are not interleaved.
\<close>

definition tick ::
  "(client \<Rightarrow> envelope \<Rightarrow> js_error + unit) \<Rightarrow> int \<Rightarrow> DockerMonitor \<Rightarrow>
   js_error + si_data \<Rightarrow> js_error + raw_container list \<Rightarrow> ws_state \<Rightarrow> ws_state" where
  "tick send now dm sys_src docker_src st =
     (if length (clients st) = 0 then st
      else
        (let st1 = st\<lparr>system_polls := Suc (system_polls st),
                       docker_polls := Suc (docker_polls st)\<rparr>
         in case getSystemOverview sys_src of
              Inl e \<Rightarrow> st1\<lparr>logged := logged st1 @ [e]\<rparr>
            | Inr systemData \<Rightarrow>
                (case listContainers dm docker_src of
                   Inl e \<Rightarrow> st1\<lparr>logged := logged st1 @ [e]\<rparr>
                 | Inr dockerData \<Rightarrow>
                     (case broadcast send
                             \<lparr>msg_type = ''metrics_update'', msg_timestamp = ISO now,
                              msg_data = \<lparr>data_system = systemData,
                                          data_docker = dockerData\<rparr>\<rparr> st1 of
                        (st2, None) \<Rightarrow> st2
                      | (st2, Some e) \<Rightarrow> st2\<lparr>logged := logged st2 @ [e]\<rparr>))))"

text \<open>
  \<^verbatim>\<open>startMetricsBroadcast\<close> arms the timer, \<^verbatim>\<open>stop\<close> clears it; the timer runs its
  callback at each firing for as long as it is armed.
\<close>

definition startMetricsBroadcast :: "ws_state \<Rightarrow> ws_state" where
  "startMetricsBroadcast st = st\<lparr>timer_running := True\<rparr>"

definition stop :: "ws_state \<Rightarrow> ws_state" where
  "stop st = st\<lparr>timer_running := False\<rparr>"

definition timer_fires ::
  "(client \<Rightarrow> envelope \<Rightarrow> js_error + unit) \<Rightarrow> int \<Rightarrow> DockerMonitor \<Rightarrow>
   js_error + si_data \<Rightarrow> js_error + raw_container list \<Rightarrow> ws_state \<Rightarrow> ws_state" where
  "timer_fires send now dm sys_src docker_src st =
     (if timer_running st then tick send now dm sys_src docker_src st else st)"

section \<open>Authentication (middleware/auth.js)\<close>

text \<open>What the middleware does with a request: answer with a status and an error message, or call \<^verbatim>\<open>next\<close>.\<close>

datatype auth_outcome = Status nat string | CallNext

text \<open>Truthiness of a string that may be undefined: defined and not empty.\<close>

definition str_truthy :: "string option \<Rightarrow> bool" where
  "str_truthy s = (case s of None \<Rightarrow> False | Some v \<Rightarrow> v \<noteq> [])"

definition startsWith :: "string \<Rightarrow> string \<Rightarrow> bool" where
  "startsWith s p = (take (length p) s = p)"

text \<open>
  The arguments are \<^verbatim>\<open>process.env.API_KEY\<close> and \<^verbatim>\<open>req.headers.authorization\<close>;
  \<^verbatim>\<open>substring(7)\<close> drops the first seven characters.
\<close>

definition authMiddleware :: "string option \<Rightarrow> string option \<Rightarrow> auth_outcome" where
  "authMiddleware apiKey authHeader =
     (if \<not> str_truthy apiKey then Status 500 ''Server configuration error''
      else (case authHeader of
              None \<Rightarrow> Status 401 ''Missing or invalid authorization header''
            | Some h \<Rightarrow>
                if h = [] \<or> \<not> startsWith h ''Bearer ''
                then Status 401 ''Missing or invalid authorization header''
                else (let token = drop 7 h
                      in if Some token \<noteq> apiKey then Status 401 ''Invalid API key''
                         else CallNext)))"

section \<open>Sample inputs\<close>

definition sample_stats :: docker_stats where
  "sample_stats =
     \<lparr>cpu_stats = \<lparr>cpu_usage = \<lparr>total_usage = Num 1200\<rparr>, system_cpu_usage = Num 5000,
                   online_cpus = Num 4\<rparr>,
      precpu_stats = \<lparr>cpu_usage = \<lparr>total_usage = Num 1000\<rparr>, system_cpu_usage = Num 4000,
                      online_cpus = Num 4\<rparr>,
      memory_stats = \<lparr>raw_usage = Num 1, raw_limit = Num 3\<rparr>,
      networks = Some [(''eth0'', \<lparr>rx_bytes = Num 10, tx_bytes = Num 20\<rparr>),
                       (''eth1'', \<lparr>rx_bytes = Num 5, tx_bytes = NaN\<rparr>)],
      blkio_stats = \<lparr>io_service_bytes_recursive = None\<rparr>\<rparr>"


definition sample_disks :: "fs_entry list" where
  "sample_disks =
     [\<lparr>mount = ''/boot'', fs_size = Num 256, fs_used = Num 64, fs_available = Num 192\<rparr>,
      \<lparr>mount = ''/'', fs_size = Num 32000, fs_used = Num 8000, fs_available = Num 24000\<rparr>]"

definition sample_disks_noroot :: "fs_entry list" where
  "sample_disks_noroot =
     [\<lparr>mount = ''/boot'', fs_size = Num 256, fs_used = Num 64, fs_available = Num 192\<rparr>,
      \<lparr>mount = ''/data'', fs_size = Num 32000, fs_used = Num 8000, fs_available = Num 24000\<rparr>]"

definition sample_nets :: "(string \<times> network_raw) list" where
  "sample_nets =
     [(''eth0'', \<lparr>rx_bytes = Num 10, tx_bytes = Num 20\<rparr>),
      (''eth1'', \<lparr>rx_bytes = Num 5, tx_bytes = Num 7\<rparr>)]"

text \<open>A \<^verbatim>\<open>send\<close> that returns on an open socket and throws on any other.\<close>

definition send_if_open :: "client \<Rightarrow> envelope \<Rightarrow> js_error + unit" where
  "send_if_open c message =
     (if readyState c = OPEN then Inr () else Inl (Error ''WebSocket is not open''))"

definition sample_monitor :: DockerMonitor where
  "sample_monitor = \<lparr>dockerEnabled = True, dockerAvailable = True\<rparr>"

definition sample_si :: si_data where
  "sample_si =
     \<lparr>si_cpu = \<lparr>currentLoad = Num (251 / 10), cpus = [Num 20, Num 30]\<rparr>,
      si_memory = \<lparr>si_total = Num 8000, si_used = Num 2000, si_free = Num 6000\<rparr>,
      si_disk = sample_disks,
      si_osinfo = \<lparr>hostname = ''pi'', uptime = NaN, avgLoad1 = NaN, avgLoad5 = NaN,
                    avgLoad15 = NaN\<rparr>,
      si_temp_main = NaN\<rparr>"

definition sample_overview :: overview where
  "sample_overview =
     \<lparr>ov_hostname = ''pi'', ov_uptime = NaN, loadAverage = [NaN, NaN, NaN],
      ov_cpu = \<lparr>cpu_pct = Num (251 / 10), cores = 2, temperature = Num 0\<rparr>,
      ov_memory = \<lparr>total = Num 8000, used = Num 2000, free = Num 6000, used_pct = Num 25\<rparr>,
      ov_disk = \<lparr>total = Num 32000, used = Num 8000, free = Num 24000, used_pct = Num 25\<rparr>\<rparr>"

text \<open>A registry with an open socket, a closed one and another open one.\<close>

definition sample_clients :: "client list" where
  "sample_clients =
     [\<lparr>client_id = 1, readyState = OPEN\<rparr>, \<lparr>client_id = 2, readyState = CLOSED\<rparr>,
      \<lparr>client_id = 3, readyState = OPEN\<rparr>]"

definition sample_service :: ws_state where
  "sample_service =
     \<lparr>clients = sample_clients, timer_running = True, sent = [], system_polls = 0,
      docker_polls = 0, logged = []\<rparr>"

definition idle_service :: ws_state where
  "idle_service = startMetricsBroadcast new_WebSocketService"

definition sample_envelope :: envelope where
  "sample_envelope =
     \<lparr>msg_type = ''metrics_update'', msg_timestamp = ISO 1000,
      msg_data = \<lparr>data_system = sample_overview, data_docker = []\<rparr>\<rparr>"

definition sample_container :: raw_container where
  "sample_container =
     \<lparr>c_Id = ''0123456789abcdef'', c_Names = [''/web''], c_Image = ''nginx'',
      c_State = ''exited'', c_Status = ''Exited (0) 2 hours ago'', c_Ports = [],
      c_Created = 1700000000, c_StartedAt = None\<rparr>"

section \<open>Rounding\<close>

lemma round2_Num: "round2 (Num x) = Num (of_int \<lfloor>x * 100 + 1 / 2\<rfloor> / 100)"
  by (simp add: round2_def)


section \<open>Container CPU and memory percentages\<close>









section \<open>Disk and network aggregates\<close>

lemma root_entry_found:
  "find (\<lambda>d. mount d = ''/'') disks = Some r \<Longrightarrow> root_entry disks = Some r"
  by (simp add: root_entry_def)

lemma root_entry_first:
  "find (\<lambda>d. mount d = ''/'') disks = None \<Longrightarrow> disks \<noteq> [] \<Longrightarrow> root_entry disks = Some (hd disks)"
  by (cases disks) (simp_all add: root_entry_def)

lemma aggregate_of_root:
  "root_entry disks = Some r \<Longrightarrow>
   aggregateDiskStats disks =
     \<lparr>total = js_or0 (fs_size r), used = js_or0 (fs_used r), free = js_or0 (fs_available r),
      used_pct = js_or0 (round2 (js_mul (js_div (fs_used r) (fs_size r)) (Num 100)))\<rparr>"
  by (simp add: aggregateDiskStats_def opt_field_def)

text \<open>The sum that the reduction over the networks computes, for numeric byte counts.\<close>

lemma foldl_net_sum:
  "foldl (\<lambda>acc n. \<lparr>rx = js_add (rx acc) (js_or0 (rx_bytes n)),
                    tx = js_add (tx acc) (js_or0 (tx_bytes n))\<rparr>)
     \<lparr>rx = Num a, tx = Num b\<rparr>
     (map (\<lambda>(x, y). \<lparr>rx_bytes = Num x, tx_bytes = Num y\<rparr>) bs) =
   \<lparr>rx = Num (a + sum_list (map fst bs)), tx = Num (b + sum_list (map snd bs))\<rparr>"
proof (induction bs arbitrary: a b)
  case Nil
  then show ?case by simp
next
  case (Cons p bs)
  obtain x y where p: "p = (x, y)" by (cases p)
  have or0: "js_or0 (Num x) = Num x" "js_or0 (Num y) = Num y"
    by (simp_all add: js_or0_def)
  show ?case
    using Cons.IH [of "a + x" "b + y"] by (simp add: p or0 add.assoc)
qed


text \<open>
  Claim C9.  For a non-empty list of filesystem entries the aggregated disk usage, which
  is the disk part of the system overview, is taken from one entry of the list: an entry
  mounted at \<open>/\<close> when there is one, the first entry otherwise.  The network part of a container's stats sums the \<open>rx_bytes\<close> and
  the \<open>tx_bytes\<close> of all networks.
\<close>

theorem aggregates_root_and_networks:
  "(disks \<noteq> [] \<longrightarrow>
      (\<exists>r \<in> set disks.
         ((\<exists>d \<in> set disks. mount d = ''/'') \<longrightarrow> mount r = ''/'') \<and>
         ((\<forall>d \<in> set disks. mount d \<noteq> ''/'') \<longrightarrow> r = hd disks) \<and>
         total (aggregateDiskStats disks) = js_or0 (fs_size r) \<and>
         used (aggregateDiskStats disks) = js_or0 (fs_used r) \<and>
         free (aggregateDiskStats disks) = js_or0 (fs_available r) \<and>
         used_pct (aggregateDiskStats disks) =
           js_or0 (round2 (js_mul (js_div (fs_used r) (fs_size r)) (Num 100))))) \<and>
   (getSystemOverview (Inr host) = Inr ov \<longrightarrow> ov_disk ov = aggregateDiskStats (si_disk host)) \<and>
   (map snd nets = map (\<lambda>(x, y). \<lparr>rx_bytes = Num x, tx_bytes = Num y\<rparr>) bs \<longrightarrow>
      calculateNetworkStats (Some nets) =
        \<lparr>rx = Num (sum_list (map fst bs)), tx = Num (sum_list (map snd bs))\<rparr>)"
proof (intro conjI impI)
  assume "getSystemOverview (Inr host) = Inr ov"
  then show "ov_disk ov = aggregateDiskStats (si_disk host)"
    by (auto simp: getSystemOverview_def)
next
  assume ne: "disks \<noteq> []"
  show "\<exists>r \<in> set disks.
         ((\<exists>d \<in> set disks. mount d = ''/'') \<longrightarrow> mount r = ''/'') \<and>
         ((\<forall>d \<in> set disks. mount d \<noteq> ''/'') \<longrightarrow> r = hd disks) \<and>
         total (aggregateDiskStats disks) = js_or0 (fs_size r) \<and>
         used (aggregateDiskStats disks) = js_or0 (fs_used r) \<and>
         free (aggregateDiskStats disks) = js_or0 (fs_available r) \<and>
         used_pct (aggregateDiskStats disks) =
           js_or0 (round2 (js_mul (js_div (fs_used r) (fs_size r)) (Num 100)))"
  proof (cases "find (\<lambda>d. mount d = ''/'') disks")
    case None
    then have no: "\<forall>d \<in> set disks. mount d \<noteq> ''/''"
      by (simp add: find_None_iff)
    from None ne have "root_entry disks = Some (hd disks)"
      by (rule root_entry_first)
    then show ?thesis
      using no ne by (intro bexI [of _ "hd disks"]) (simp_all add: aggregate_of_root)
  next
    case (Some r)
    then have mem: "r \<in> set disks" and m: "mount r = ''/''"
      by (auto simp: find_Some_iff)
    from Some have "root_entry disks = Some r"
      by (rule root_entry_found)
    then show ?thesis
      using mem m by (intro bexI [of _ r]) (auto simp: aggregate_of_root)
  qed
next
  assume "map snd nets = map (\<lambda>(x, y). \<lparr>rx_bytes = Num x, tx_bytes = Num y\<rparr>) bs"
  then show "calculateNetworkStats (Some nets) =
        \<lparr>rx = Num (sum_list (map fst bs)), tx = Num (sum_list (map snd bs))\<rparr>"
    using foldl_net_sum [of 0 0 bs] by (simp add: calculateNetworkStats_def)
qed

theorem aggregates_root_and_networks_witness:
  "sample_disks \<noteq> [] \<and>
   total (aggregateDiskStats sample_disks) = Num 32000 \<and>
   used (aggregateDiskStats sample_disks) = Num 8000 \<and>
   free (aggregateDiskStats sample_disks) = Num 24000 \<and>
   sample_disks_noroot \<noteq> [] \<and>
   total (aggregateDiskStats sample_disks_noroot) = Num 256 \<and>
   used (aggregateDiskStats sample_disks_noroot) = Num 64 \<and>
   free (aggregateDiskStats sample_disks_noroot) = Num 192 \<and>
   calculateNetworkStats (Some sample_nets) = \<lparr>rx = Num 15, tx = Num 27\<rparr>"
proof -
  have ne: "sample_disks \<noteq> []" "sample_disks_noroot \<noteq> []"
    by (simp_all add: sample_disks_def sample_disks_noroot_def)
  have has: "\<exists>d \<in> set sample_disks. mount d = ''/''"
    by (simp add: sample_disks_def)
  have none: "\<forall>d \<in> set sample_disks_noroot. mount d \<noteq> ''/''"
    by (simp add: sample_disks_noroot_def)
  from ne(1) has aggregates_root_and_networks
    [where disks = sample_disks and nets = sample_nets and bs = "[(10, 20), (5, 7)]"]
  obtain r where r: "r \<in> set sample_disks" "mount r = ''/''"
    "total (aggregateDiskStats sample_disks) = js_or0 (fs_size r)"
    "used (aggregateDiskStats sample_disks) = js_or0 (fs_used r)"
    "free (aggregateDiskStats sample_disks) = js_or0 (fs_available r)"
    by blast
  from r(1,2) have "r = \<lparr>mount = ''/'', fs_size = Num 32000, fs_used = Num 8000,
                          fs_available = Num 24000\<rparr>"
    by (auto simp: sample_disks_def)
  with r(3-5) have a: "total (aggregateDiskStats sample_disks) = Num 32000"
    "used (aggregateDiskStats sample_disks) = Num 8000"
    "free (aggregateDiskStats sample_disks) = Num 24000"
    by (simp_all add: js_or0_def)
  from ne(2) none
    aggregates_root_and_networks
      [where disks = sample_disks_noroot and nets = sample_nets and bs = "[(10, 20), (5, 7)]"]
  obtain q where q: "q = hd sample_disks_noroot"
    "total (aggregateDiskStats sample_disks_noroot) = js_or0 (fs_size q)"
    "used (aggregateDiskStats sample_disks_noroot) = js_or0 (fs_used q)"
    "free (aggregateDiskStats sample_disks_noroot) = js_or0 (fs_available q)"
    by blast
  then have b: "total (aggregateDiskStats sample_disks_noroot) = Num 256"
    "used (aggregateDiskStats sample_disks_noroot) = Num 64"
    "free (aggregateDiskStats sample_disks_noroot) = Num 192"
    by (simp_all add: sample_disks_noroot_def js_or0_def)
  have "map snd sample_nets =
        map (\<lambda>(x, y). \<lparr>rx_bytes = Num x, tx_bytes = Num y\<rparr>) [(10, 20), (5, 7)]"
    by (simp add: sample_nets_def)
  with aggregates_root_and_networks
    [where disks = sample_disks and nets = sample_nets and bs = "[(10, 20), (5, 7)]"]
  have c: "calculateNetworkStats (Some sample_nets) = \<lparr>rx = Num 15, tx = Num 27\<rparr>"
    by simp
  from ne a b c show ?thesis by simp
qed

section \<open>Authentication\<close>

lemma startsWith_Bearer: "startsWith h ''Bearer '' \<longleftrightarrow> take 7 h = ''Bearer ''"
proof -
  have "length ''Bearer '' = 7" by simp
  then show ?thesis by (simp only: startsWith_def)
qed

text \<open>
  Claim C10.  Without a configured key (undefined or empty) the middleware answers 500
  whatever the header is; with a key, a missing header or one that does not start with
  \<open>Bearer \<close> gets 401, and so does a token that differs from the key; \<open>next\<close> is
  called exactly when the header is \<open>Bearer \<close> followed by the configured key.
\<close>

theorem authMiddleware_outcomes:
  "((apiKey = None \<or> apiKey = Some []) \<longrightarrow>
      authMiddleware apiKey authHeader = Status 500 ''Server configuration error'') \<and>
   (apiKey = Some k \<and> k \<noteq> [] \<and>
    (authHeader = None \<or> (\<exists>h. authHeader = Some h \<and> \<not> startsWith h ''Bearer '')) \<longrightarrow>
      authMiddleware apiKey authHeader = Status 401 ''Missing or invalid authorization header'') \<and>
   (apiKey = Some k \<and> k \<noteq> [] \<and> authHeader = Some h \<and> startsWith h ''Bearer '' \<and>
    drop 7 h \<noteq> k \<longrightarrow>
      authMiddleware apiKey authHeader = Status 401 ''Invalid API key'') \<and>
   (authMiddleware apiKey authHeader = CallNext \<longleftrightarrow>
      (\<exists>key. key \<noteq> [] \<and> apiKey = Some key \<and> authHeader = Some (''Bearer '' @ key)))"
proof (intro conjI impI)
  assume "apiKey = None \<or> apiKey = Some []"
  then show "authMiddleware apiKey authHeader = Status 500 ''Server configuration error''"
    by (auto simp: authMiddleware_def str_truthy_def)
next
  assume "apiKey = Some k \<and> k \<noteq> [] \<and>
    (authHeader = None \<or> (\<exists>h. authHeader = Some h \<and> \<not> startsWith h ''Bearer ''))"
  then show "authMiddleware apiKey authHeader =
             Status 401 ''Missing or invalid authorization header''"
    by (auto simp: authMiddleware_def str_truthy_def)
next
  assume "apiKey = Some k \<and> k \<noteq> [] \<and> authHeader = Some h \<and> startsWith h ''Bearer '' \<and>
    drop 7 h \<noteq> k"
  then show "authMiddleware apiKey authHeader = Status 401 ''Invalid API key''"
    by (auto simp: authMiddleware_def str_truthy_def startsWith_def)
next
  have pre: "h = ''Bearer '' @ drop 7 h" if "startsWith h ''Bearer ''" for h
  proof -
    from that have "take 7 h = ''Bearer ''"
      by (simp only: startsWith_Bearer)
    then show ?thesis
      by (metis append_take_drop_id)
  qed
  show "authMiddleware apiKey authHeader = CallNext \<longleftrightarrow>
      (\<exists>key. key \<noteq> [] \<and> apiKey = Some key \<and> authHeader = Some (''Bearer '' @ key))"
  proof
    assume n: "authMiddleware apiKey authHeader = CallNext"
    then obtain key where k: "apiKey = Some key" "key \<noteq> []"
      by (cases apiKey) (auto simp: authMiddleware_def str_truthy_def split: if_splits)
    from n k obtain hh where h: "authHeader = Some hh" "startsWith hh ''Bearer ''" "drop 7 hh = key"
      by (cases authHeader)
        (auto simp: authMiddleware_def str_truthy_def Let_def split: if_splits)
    from pre [OF h(2)] h(3) have "hh = ''Bearer '' @ key" by simp
    with k h show "\<exists>key. key \<noteq> [] \<and> apiKey = Some key \<and> authHeader = Some (''Bearer '' @ key)"
      by blast
  next
    assume "\<exists>key. key \<noteq> [] \<and> apiKey = Some key \<and> authHeader = Some (''Bearer '' @ key)"
    then show "authMiddleware apiKey authHeader = CallNext"
      by (auto simp: authMiddleware_def str_truthy_def startsWith_def)
  qed
qed

theorem authMiddleware_outcomes_witness:
  "authMiddleware None (Some ''Bearer secret'') = Status 500 ''Server configuration error'' \<and>
   authMiddleware (Some ''secret'') None =
     Status 401 ''Missing or invalid authorization header'' \<and>
   authMiddleware (Some ''secret'') (Some ''Basic secret'') =
     Status 401 ''Missing or invalid authorization header'' \<and>
   authMiddleware (Some ''secret'') (Some ''Bearer secrets'') = Status 401 ''Invalid API key'' \<and>
   authMiddleware (Some ''secret'') (Some ''Bearer secret'') = CallNext"
proof -
  have a: "authMiddleware None (Some ''Bearer secret'') = Status 500 ''Server configuration error''"
    using authMiddleware_outcomes [where apiKey = None and authHeader = "Some ''Bearer secret''"] by simp
  have b: "authMiddleware (Some ''secret'') None =
           Status 401 ''Missing or invalid authorization header''"
    using authMiddleware_outcomes [where apiKey = "Some ''secret''" and k = "''secret''" and authHeader = None] by simp
  have c: "authMiddleware (Some ''secret'') (Some ''Basic secret'') =
           Status 401 ''Missing or invalid authorization header''"
    using authMiddleware_outcomes [where apiKey = "Some ''secret''" and k = "''secret''" and
        authHeader = "Some ''Basic secret''"]
    by (simp add: startsWith_def)
  have d: "authMiddleware (Some ''secret'') (Some ''Bearer secrets'') = Status 401 ''Invalid API key''"
    using authMiddleware_outcomes
      [where apiKey = "Some ''secret''" and k = "''secret''" and
        authHeader = "Some ''Bearer secrets''" and h = "''Bearer secrets''"]
    by (simp add: startsWith_def)
  have e: "authMiddleware (Some ''secret'') (Some ''Bearer secret'') = CallNext"
    using authMiddleware_outcomes
      [where apiKey = "Some ''secret''" and authHeader = "Some ''Bearer secret''"]
    by simp
  from a b c d e show ?thesis by simp
qed

section \<open>The timer callback without subscribers\<close>

text \<open>
  Claim C4.  When the registry is empty at a firing of the timer, the callback returns at
  once: no adapter is polled, nothing is sent, and the service is as it was.
\<close>

theorem tick_without_subscribers:
  "clients st = [] \<Longrightarrow>
   tick send now dm sys_src docker_src st = st \<and>
   timer_fires send now dm sys_src docker_src st = st \<and>
   system_polls (timer_fires send now dm sys_src docker_src st) = system_polls st \<and>
   docker_polls (timer_fires send now dm sys_src docker_src st) = docker_polls st \<and>
   sent (timer_fires send now dm sys_src docker_src st) = sent st"
  by (simp add: tick_def timer_fires_def)

theorem tick_without_subscribers_witness:
  "clients idle_service = [] \<and>
   timer_fires send_if_open 1000 sample_monitor (Inr sample_si) (Inr []) idle_service =
     idle_service \<and>
   system_polls (timer_fires send_if_open 1000 sample_monitor (Inr sample_si) (Inr [])
     idle_service) = 0 \<and>
   docker_polls (timer_fires send_if_open 1000 sample_monitor (Inr sample_si) (Inr [])
     idle_service) = 0 \<and>
   sent (timer_fires send_if_open 1000 sample_monitor (Inr sample_si) (Inr []) idle_service) = []"
proof -
  have e: "clients idle_service = []"
    by (simp add: idle_service_def startMetricsBroadcast_def new_WebSocketService_def)
  have z: "system_polls idle_service = 0" "docker_polls idle_service = 0" "sent idle_service = []"
    by (simp_all add: idle_service_def startMetricsBroadcast_def new_WebSocketService_def)
  from tick_without_subscribers [OF e, of send_if_open 1000 sample_monitor "Inr sample_si" "Inr []"]
    e z show ?thesis
    by simp
qed

section \<open>The cache\<close>

text \<open>
  Claim C6.  After \<open>set(k, v, T)\<close> with a duration \<open>T\<close>, a \<open>get(k)\<close> at the same
  instant returns \<open>v\<close>, as does every \<open>get(k)\<close> until \<open>T\<close> has elapsed; a \<open>get(k)\<close>
  after \<open>T\<close> has elapsed finds nothing.
\<close>

theorem cache_set_then_get:
  "0 \<le> T \<Longrightarrow>
   cache_get now (cache_set now cs k v (Some T)) k = Some v \<and>
   (\<forall>t. now \<le> t \<and> t \<le> now + T \<longrightarrow> cache_get t (cache_set now cs k v (Some T)) k = Some v) \<and>
   (\<forall>t. now + T < t \<longrightarrow> cache_get t (cache_set now cs k v (Some T)) k = None)"
  by (simp add: cache_get_def cache_set_def nc_get_def nc_set_def)

theorem cache_set_then_get_witness:
  "cache_get 100 (cache_set 100 (new_CacheService None) ''health:test'' ''ok'' (Some 1))
     ''health:test'' = Some ''ok'' \<and>
   cache_get 101 (cache_set 100 (new_CacheService None) ''health:test'' ''ok'' (Some 1))
     ''health:test'' = Some ''ok'' \<and>
   cache_get 102 (cache_set 100 (new_CacheService None) ''health:test'' ''ok'' (Some 1))
     ''health:test'' = None"
proof -
  have h: "(0::int) \<le> 1" by simp
  note t = cache_set_then_get [OF h, of 100 "new_CacheService None" "''health:test''" "''ok''"]
  from t have a: "cache_get 100 (cache_set 100 (new_CacheService None) ''health:test'' ''ok''
      (Some 1)) ''health:test'' = Some ''ok''"
    by blast
  from t have "(100::int) \<le> 101 \<and> (101::int) \<le> 100 + 1 \<longrightarrow>
      cache_get 101 (cache_set 100 (new_CacheService None) ''health:test'' ''ok''
      (Some 1)) ''health:test'' = Some ''ok''"
    by blast
  then have b: "cache_get 101 (cache_set 100 (new_CacheService None) ''health:test'' ''ok''
      (Some 1)) ''health:test'' = Some ''ok''"
    by simp
  from t have "(100::int) + 1 < 102 \<longrightarrow>
      cache_get 102 (cache_set 100 (new_CacheService None) ''health:test'' ''ok''
      (Some 1)) ''health:test'' = None"
    by blast
  then have c: "cache_get 102 (cache_set 100 (new_CacheService None) ''health:test'' ''ok''
      (Some 1)) ''health:test'' = None"
    by simp
  from a b c show ?thesis by simp
qed

section \<open>One broadcast\<close>

lemma broadcast_each_rest:
  "timer_running (fst (broadcast_each send m cs st)) = timer_running st \<and>
   system_polls (fst (broadcast_each send m cs st)) = system_polls st \<and>
   docker_polls (fst (broadcast_each send m cs st)) = docker_polls st \<and>
   logged (fst (broadcast_each send m cs st)) = logged st"
  by (induction cs arbitrary: st) (auto simp: clients_delete_def split: sum.splits)

lemma broadcast_each_no_error:
  "\<forall>c \<in> set cs. readyState c = OPEN \<longrightarrow> send c m = Inr () \<Longrightarrow>
   snd (broadcast_each send m cs st) = None"
  by (induction cs arbitrary: st) (auto split: sum.splits)

lemma broadcast_each_sent:
  "\<forall>c \<in> set cs. readyState c = OPEN \<longrightarrow> send c m = Inr () \<Longrightarrow>
   sent (fst (broadcast_each send m cs st)) =
     sent st @ map (\<lambda>c. (client_id c, m)) (filter (\<lambda>c. readyState c = OPEN) cs)"
  by (induction cs arbitrary: st) (auto simp: clients_delete_def split: sum.splits)

lemma broadcast_each_clients:
  "\<forall>c \<in> set cs. readyState c = OPEN \<longrightarrow> send c m = Inr () \<Longrightarrow>
   clients (fst (broadcast_each send m cs st)) =
     filter (\<lambda>x. \<forall>c \<in> set cs. readyState c \<noteq> OPEN \<longrightarrow> client_id x \<noteq> client_id c)
       (clients st)"
proof (induction cs arbitrary: st)
  case Nil
  then show ?case by simp
next
  case (Cons c cs)
  show ?case
  proof (cases "readyState c = OPEN")
    case True
    with Cons.prems have "send c m = Inr ()" by simp
    with True Cons show ?thesis by simp
  next
    case False
    from Cons.prems have "\<forall>c \<in> set cs. readyState c = OPEN \<longrightarrow> send c m = Inr ()"
      by simp
    from Cons.IH [OF this, of "clients_delete c st"] False show ?thesis
      by (auto simp: clients_delete_def intro: filter_cong)
  qed
qed

lemma filter_not_open_ids:
  assumes "distinct (map client_id xs)"
  shows "filter (\<lambda>x. \<forall>c \<in> set xs. readyState c \<noteq> OPEN \<longrightarrow> client_id x \<noteq> client_id c) xs =
         filter (\<lambda>c. readyState c = OPEN) xs"
proof (rule filter_cong [OF refl])
  fix x
  assume x: "x \<in> set xs"
  from assms have inj: "inj_on client_id (set xs)"
    by (simp add: distinct_map)
  show "(\<forall>c \<in> set xs. readyState c \<noteq> OPEN \<longrightarrow> client_id x \<noteq> client_id c) =
        (readyState x = OPEN)"
  proof
    assume "\<forall>c \<in> set xs. readyState c \<noteq> OPEN \<longrightarrow> client_id x \<noteq> client_id c"
    with x show "readyState x = OPEN" by blast
  next
    assume o: "readyState x = OPEN"
    show "\<forall>c \<in> set xs. readyState c \<noteq> OPEN \<longrightarrow> client_id x \<noteq> client_id c"
    proof (intro ballI impI)
      fix c
      assume c: "c \<in> set xs" "readyState c \<noteq> OPEN"
      show "client_id x \<noteq> client_id c"
      proof
        assume "client_id x = client_id c"
        with inj x c(1) have "x = c" by (simp add: inj_on_def)
        with o c(2) show False by simp
      qed
    qed
  qed
qed

lemma broadcast_result:
  assumes "distinct (map client_id (clients st))"
    and "\<forall>c \<in> set (clients st). readyState c = OPEN \<longrightarrow> send c m = Inr ()"
  shows "snd (broadcast send m st) = None"
    and "clients (fst (broadcast send m st)) = filter (\<lambda>c. readyState c = OPEN) (clients st)"
    and "sent (fst (broadcast send m st)) =
         sent st @ map (\<lambda>c. (client_id c, m)) (filter (\<lambda>c. readyState c = OPEN) (clients st))"
  using assms
  by (simp_all add: broadcast_def broadcast_each_no_error broadcast_each_sent
      broadcast_each_clients filter_not_open_ids)

text \<open>The registry holds each socket once; every operation on it keeps that.\<close>

lemma registry_distinct:
  assumes "distinct (map client_id (clients st))"
  shows "distinct (map client_id (clients (on_connection ws st)))"
    and "distinct (map client_id (clients (on_close ws st)))"
    and "distinct (map client_id (clients (on_error ws st)))"
  using assms
  by (auto simp: on_connection_def on_close_def on_error_def clients_add_def clients_delete_def
      distinct_map_filter)

lemma broadcast_rest:
  "timer_running (fst (broadcast send m st)) = timer_running st \<and>
   system_polls (fst (broadcast send m st)) = system_polls st \<and>
   docker_polls (fst (broadcast send m st)) = docker_polls st \<and>
   logged (fst (broadcast send m st)) = logged st"
  unfolding broadcast_def by (rule broadcast_each_rest)

text \<open>The timer callback as a case distinction on what the two adapters return.\<close>

lemma tick_system_failed:
  assumes "clients st \<noteq> []" and "getSystemOverview sys_src = Inl e"
  shows "tick send now dm sys_src docker_src st =
         st\<lparr>system_polls := Suc (system_polls st), docker_polls := Suc (docker_polls st),
            logged := logged st @ [e]\<rparr>"
  using assms by (simp add: tick_def)

lemma tick_broadcasts:
  assumes "clients st \<noteq> []"
    and "getSystemOverview sys_src = Inr ov"
    and "listContainers dm docker_src = Inr cs"
    and "snd (broadcast send
                \<lparr>msg_type = ''metrics_update'', msg_timestamp = ISO now,
                 msg_data = \<lparr>data_system = ov, data_docker = cs\<rparr>\<rparr>
                (st\<lparr>system_polls := Suc (system_polls st),
                    docker_polls := Suc (docker_polls st)\<rparr>)) = None"
  shows "tick send now dm sys_src docker_src st =
         fst (broadcast send
                \<lparr>msg_type = ''metrics_update'', msg_timestamp = ISO now,
                 msg_data = \<lparr>data_system = ov, data_docker = cs\<rparr>\<rparr>
                (st\<lparr>system_polls := Suc (system_polls st),
                    docker_polls := Suc (docker_polls st)\<rparr>))"
proof -
  obtain s' r where br:
    "broadcast send
       \<lparr>msg_type = ''metrics_update'', msg_timestamp = ISO now,
        msg_data = \<lparr>data_system = ov, data_docker = cs\<rparr>\<rparr>
       (st\<lparr>system_polls := Suc (system_polls st),
           docker_polls := Suc (docker_polls st)\<rparr>) = (s', r)"
    by (cases "broadcast send
       \<lparr>msg_type = ''metrics_update'', msg_timestamp = ISO now,
        msg_data = \<lparr>data_system = ov, data_docker = cs\<rparr>\<rparr>
       (st\<lparr>system_polls := Suc (system_polls st),
           docker_polls := Suc (docker_polls st)\<rparr>)")
  with assms(4) have "r = None" by simp
  with br assms(1-3) show ?thesis
    by (simp add: tick_def)
qed




section \<open>A timer callback with a failing adapter\<close>

lemma getSystemOverview_sample: "getSystemOverview (Inr sample_si) = Inr sample_overview"
  by (simp add: getSystemOverview_def sample_si_def sample_overview_def aggregateDiskStats_def
      root_entry_def sample_disks_def opt_field_def js_or0_def round2_Num floor_eq_iff)

text \<open>
  Claim C2, as the code has it.  At a firing with at least one subscriber (distinct
  sockets, \<open>send\<close> returning for the open ones): if the system overview is obtained,
  then a failing container source, or Docker being unavailable, does not stop the
  message: every open subscriber gets the envelope with the overview and an empty
  container list, and nothing is logged.  If the system overview fails, its error is
  logged, nothing is sent at this firing, the registry is unchanged and the timer stays
  armed.
\<close>

theorem tick_with_failing_adapter:
  "clients st \<noteq> [] \<Longrightarrow>
   distinct (map client_id (clients st)) \<Longrightarrow>
   \<forall>c \<in> set (clients st). \<forall>m. readyState c = OPEN \<longrightarrow> send c m = Inr () \<Longrightarrow>
   (sys_src = Inr d \<and> (\<not> dockerAvailable dm \<or> docker_src = Inl derr) \<longrightarrow>
      (\<exists>ov. getSystemOverview sys_src = Inr ov \<and>
            sent (tick send now dm sys_src docker_src st) =
              sent st @
              map (\<lambda>c. (client_id c,
                         \<lparr>msg_type = ''metrics_update'', msg_timestamp = ISO now,
                          msg_data = \<lparr>data_system = ov, data_docker = []\<rparr>\<rparr>))
                (filter (\<lambda>c. readyState c = OPEN) (clients st))) \<and>
      logged (tick send now dm sys_src docker_src st) = logged st) \<and>
   (sys_src = Inl serr \<longrightarrow>
      sent (tick send now dm sys_src docker_src st) = sent st \<and>
      logged (tick send now dm sys_src docker_src st) = logged st @ [serr] \<and>
      clients (tick send now dm sys_src docker_src st) = clients st \<and>
      timer_running (tick send now dm sys_src docker_src st) = timer_running st)"
proof (intro conjI impI)
  assume ne: "clients st \<noteq> []" and dist: "distinct (map client_id (clients st))"
    and ok: "\<forall>c \<in> set (clients st). \<forall>m. readyState c = OPEN \<longrightarrow> send c m = Inr ()"
  assume h: "sys_src = Inr d \<and> (\<not> dockerAvailable dm \<or> docker_src = Inl derr)"
  define st1 where "st1 = st\<lparr>system_polls := Suc (system_polls st),
                             docker_polls := Suc (docker_polls st)\<rparr>"
  from h obtain ov where ov: "getSystemOverview sys_src = Inr ov"
    by (auto simp: getSystemOverview_def)
  from h have lc: "listContainers dm docker_src = Inr []"
    by (auto simp: listContainers_def)
  let ?m = "\<lparr>msg_type = ''metrics_update'', msg_timestamp = ISO now,
             msg_data = \<lparr>data_system = ov, data_docker = []\<rparr>\<rparr>"
  have c1: "clients st1 = clients st" "sent st1 = sent st" "logged st1 = logged st"
    by (simp_all add: st1_def)
  from dist ok c1 have b: "snd (broadcast send ?m st1) = None"
    "sent (fst (broadcast send ?m st1)) =
       sent st @ map (\<lambda>c. (client_id c, ?m)) (filter (\<lambda>c. readyState c = OPEN) (clients st))"
    using broadcast_result(1,3) [of st1 send ?m] by simp_all
  from tick_broadcasts [OF ne ov lc] b(1)
  have t: "tick send now dm sys_src docker_src st = fst (broadcast send ?m st1)"
    by (simp add: st1_def)
  from t b(2) ov
  show "\<exists>ov. getSystemOverview sys_src = Inr ov \<and>
            sent (tick send now dm sys_src docker_src st) =
              sent st @
              map (\<lambda>c. (client_id c,
                         \<lparr>msg_type = ''metrics_update'', msg_timestamp = ISO now,
                          msg_data = \<lparr>data_system = ov, data_docker = []\<rparr>\<rparr>))
                (filter (\<lambda>c. readyState c = OPEN) (clients st))"
    by simp
  from t c1(3) show "logged (tick send now dm sys_src docker_src st) = logged st"
    by (simp add: broadcast_rest)
next
  assume ne: "clients st \<noteq> []"
  assume h: "sys_src = Inl serr"
  then have "getSystemOverview sys_src = Inl serr"
    by (simp add: getSystemOverview_def)
  from tick_system_failed [OF ne this]
  have t: "tick send now dm sys_src docker_src st =
           st\<lparr>system_polls := Suc (system_polls st), docker_polls := Suc (docker_polls st),
              logged := logged st @ [serr]\<rparr>"
    by simp
  from t show "sent (tick send now dm sys_src docker_src st) = sent st" by simp
  from t show "logged (tick send now dm sys_src docker_src st) = logged st @ [serr]" by simp
  from t show "clients (tick send now dm sys_src docker_src st) = clients st" by simp
  from t show "timer_running (tick send now dm sys_src docker_src st) = timer_running st" by simp
qed

theorem tick_with_failing_adapter_witness:
  "clients sample_service \<noteq> [] \<and>
   distinct (map client_id (clients sample_service)) \<and>
   sent (tick send_if_open 1000 sample_monitor (Inr sample_si) (Inl (Error ''docker down''))
           sample_service) = [(1, sample_envelope), (3, sample_envelope)] \<and>
   logged (tick send_if_open 1000 sample_monitor (Inr sample_si) (Inl (Error ''docker down''))
           sample_service) = [] \<and>
   sent (tick send_if_open 1000 sample_monitor (Inl (Error ''si down'')) (Inr [])
           sample_service) = [] \<and>
   logged (tick send_if_open 1000 sample_monitor (Inl (Error ''si down'')) (Inr [])
           sample_service) = [Error ''si down'']"
proof -
  have n: "clients sample_service \<noteq> []"
    by (simp add: sample_service_def sample_clients_def)
  have d: "distinct (map client_id (clients sample_service))"
    by (simp add: sample_service_def sample_clients_def)
  have s: "\<forall>c \<in> set (clients sample_service). \<forall>m.
             readyState c = OPEN \<longrightarrow> send_if_open c m = Inr ()"
    by (simp add: send_if_open_def)
  have z: "sent sample_service = []" "logged sample_service = []"
    "filter (\<lambda>c. readyState c = OPEN) (clients sample_service) =
       [\<lparr>client_id = 1, readyState = OPEN\<rparr>, \<lparr>client_id = 3, readyState = OPEN\<rparr>]"
    by (simp_all add: sample_service_def sample_clients_def)
  note t1 = tick_with_failing_adapter
    [where st = sample_service and send = send_if_open and sys_src = "Inr sample_si" and
      d = sample_si and docker_src = "Inl (Error ''docker down'')" and
      derr = "Error ''docker down''" and dm = sample_monitor and now = 1000, OF n d s]
  note t2 = tick_with_failing_adapter
    [where st = sample_service and send = send_if_open and
      sys_src = "Inl (Error ''si down'')" and serr = "Error ''si down''" and
      docker_src = "Inr []" and dm = sample_monitor and now = 1000, OF n d s]
  from t1 have a: "sent (tick send_if_open 1000 sample_monitor (Inr sample_si)
      (Inl (Error ''docker down'')) sample_service) = [(1, sample_envelope), (3, sample_envelope)]"
    by (simp add: getSystemOverview_sample z sample_envelope_def)
  from t1 have b: "logged (tick send_if_open 1000 sample_monitor (Inr sample_si)
      (Inl (Error ''docker down'')) sample_service) = []"
    by (simp add: z)
  from t2 have c: "sent (tick send_if_open 1000 sample_monitor (Inl (Error ''si down''))
      (Inr []) sample_service) = []"
    "logged (tick send_if_open 1000 sample_monitor (Inl (Error ''si down''))
      (Inr []) sample_service) = [Error ''si down'']"
    by (simp_all add: z)
  from n d a b c show ?thesis by simp
qed

text \<open>
  Against claim C2 as stated: with three subscribers and a container adapter that
  answers, a failing system overview leaves the firing without any message.
\<close>

theorem tick_dropped_when_overview_fails:
  "length (clients sample_service) = 3 \<and>
   listContainers sample_monitor (Inr []) = Inr [] \<and>
   getSystemOverview (Inl (Error ''si down'')) = Inl (Error ''si down'') \<and>
   sent (tick send_if_open 1000 sample_monitor (Inl (Error ''si down'')) (Inr [])
           sample_service) = []"
  by (simp add: tick_def getSystemOverview_def listContainers_def sample_service_def
      sample_clients_def sample_monitor_def)

section \<open>Adapters whose source fails\<close>

lemma listContainers_returns: "\<exists>v. listContainers dm src = Inr v"
  by (simp add: listContainers_def split: sum.splits)

lemma getContainerStats_returns: "\<exists>v. getContainerStats dm src = Inr v"
  by (simp add: getContainerStats_def split: sum.splits)

text \<open>
  Claim C3, as the code has it.  The container adapter that tracks availability never
  passes an error on: listing containers and reading a container's stats always return
  a value, and when Docker is unavailable or the client's call fails the value is the
  empty list, respectively the all-zero stats.  The system overview, and the operations
  of the container adapter without the availability flag, pass the error of a failed
  source on to their caller.
\<close>

theorem adapters_on_source_failure:
  "(\<exists>v. listContainers dm list_src = Inr v) \<and>
   (\<exists>v. getContainerStats dm stats_src = Inr v) \<and>
   (\<not> dockerAvailable dm \<or> list_src = Inl e \<longrightarrow> listContainers dm list_src = Inr []) \<and>
   (\<not> dockerAvailable dm \<or> stats_src = Inl e \<longrightarrow>
      getContainerStats dm stats_src = Inr empty_stats) \<and>
   getSystemOverview (Inl e) = Inl e \<and>
   listContainers_rethrow (Inl e) = Inl e \<and>
   getContainerStats_rethrow (Inl e) = Inl e"
proof (intro conjI impI)
  show "\<exists>v. listContainers dm list_src = Inr v"
    by (rule listContainers_returns)
  show "\<exists>v. getContainerStats dm stats_src = Inr v"
    by (rule getContainerStats_returns)
  show "listContainers dm list_src = Inr []" if "\<not> dockerAvailable dm \<or> list_src = Inl e"
    using that by (auto simp: listContainers_def)
  show "getContainerStats dm stats_src = Inr empty_stats"
    if "\<not> dockerAvailable dm \<or> stats_src = Inl e"
    using that by (auto simp: getContainerStats_def)
  show "getSystemOverview (Inl e) = Inl e"
    by (simp add: getSystemOverview_def)
  show "listContainers_rethrow (Inl e) = Inl e"
    by (simp add: listContainers_rethrow_def)
  show "getContainerStats_rethrow (Inl e) = Inl e"
    by (simp add: getContainerStats_rethrow_def)
qed

theorem adapters_on_source_failure_witness:
  "listContainers sample_monitor (Inl (Error ''connect ENOENT /var/run/docker.sock'')) = Inr [] \<and>
   getContainerStats sample_monitor (Inl (Error ''connect ENOENT /var/run/docker.sock'')) =
     Inr empty_stats \<and>
   listContainers (new_DockerMonitor (Some ''false'') (Inr True) (Inr ())) (Inr [sample_container])
     = Inr [] \<and>
   getContainerStats (new_DockerMonitor (Some ''false'') (Inr True) (Inr ())) (Inr sample_stats)
     = Inr empty_stats \<and>
   getSystemOverview (Inl (Error ''connect ENOENT /var/run/docker.sock'')) =
     Inl (Error ''connect ENOENT /var/run/docker.sock'')"
proof -
  note t1 = adapters_on_source_failure
    [where dm = sample_monitor and e = "Error ''connect ENOENT /var/run/docker.sock''" and
      list_src = "Inl (Error ''connect ENOENT /var/run/docker.sock'')" and
      stats_src = "Inl (Error ''connect ENOENT /var/run/docker.sock'')"]
  note t2 = adapters_on_source_failure
    [where dm = "new_DockerMonitor (Some ''false'') (Inr True) (Inr ())" and
      list_src = "Inr [sample_container]" and stats_src = "Inr sample_stats"]
  have u: "\<not> dockerAvailable (new_DockerMonitor (Some ''false'') (Inr True) (Inr ()))"
    by (simp add: new_DockerMonitor_def)
  from t1 t2 u show ?thesis
    by simp
qed

text \<open>
  Against claim C3 as stated: when the inspection calls behind the system overview fail,
  the overview operation returns no snapshot; the error reaches the caller.
\<close>

theorem getSystemOverview_propagates:
  "getSystemOverview (Inl (Error ''EACCES'')) = Inl (Error ''EACCES'')"
  by (simp add: getSystemOverview_def)

section \<open>The shape of a success response\<close>




end
